theory Spec2Isabelle
  imports Main "HOL-Library.Word"
begin

unbundle bit_operations_syntax

section \<open>The rotating logger of util/log/logger.go\<close>

subsection \<open>Handler, rotation strategy and level constants\<close>

text \<open>
  \<^verbatim>\<open>type Handler uint8\<close>, \<^verbatim>\<open>type RotateStrategy uint8\<close> and \<^verbatim>\<open>type Level uint8\<close> are
  8-bit unsigned words; the handler selection is a bit set tested with \<open>AND\<close>.
\<close>

type_synonym Handler = "8 word"
type_synonym RotateStrategy = "8 word"
type_synonym Level = "8 word"

definition HNone :: Handler where "HNone = 0"
definition Stdout :: Handler where "Stdout = 1"
definition Stderr :: Handler where "Stderr = 2"
definition File :: Handler where "File = 4"

definition RotateNone :: RotateStrategy where "RotateNone = 0"
definition RotateDay :: RotateStrategy where "RotateDay = 1"
definition RotateHour :: RotateStrategy where "RotateHour = 2"
definition RotateMinute :: RotateStrategy where "RotateMinute = 3"
definition RotateSize :: RotateStrategy where "RotateSize = 4"

definition DefaultRotateType :: RotateStrategy where "DefaultRotateType = RotateHour"
definition DefaultRotateSize :: int where "DefaultRotateSize = 2 ^ 30"
definition DefaultLogDir :: string where "DefaultLogDir = ''/tmp''"
definition RotateSizeFilePrefix :: string where "RotateSizeFilePrefix = ''rotating''"

definition DEBUG :: Level where "DEBUG = 0"
definition INFO :: Level where "INFO = 1"
definition WARN :: Level where "WARN = 2"
definition ERROR :: Level where "ERROR = 3"
definition FATAL :: Level where "FATAL = 4"
definition PANIC :: Level where "PANIC = 5"

definition gLevelString :: "string list" where
  "gLevelString = [''DEBUG'', ''INFO'', ''WARN'', ''ERROR'', ''FATAL'', ''PANIC'']"

definition fmtLevel :: string where "fmtLevel = ''level''"
definition fmtLTime :: string where "fmtLTime = ''ltime''"
definition fmtTime :: string where "fmtTime = ''time''"
definition fmtLocation :: string where "fmtLocation = ''location''"
definition fmtMsg :: string where "fmtMsg = ''msg''"

definition gDefaultLogFormat :: "string list" where
  "gDefaultLogFormat = [fmtLevel, fmtLTime, fmtLocation, fmtMsg]"

subsection \<open>Decimal rendering and the time layouts\<close>

definition digit :: "nat \<Rightarrow> char" where
  "digit n = ''0123456789'' ! (n mod 10)"

function show_nat :: "nat \<Rightarrow> string" where
  "show_nat n = (if n < 10 then [digit n] else show_nat (n div 10) @ [digit n])"
  by pat_completeness auto
termination
  by (relation "measure id") auto

declare show_nat.simps [simp del]

definition pad2 :: "nat \<Rightarrow> string" where
  "pad2 n = (if n < 10 then CHR ''0'' # show_nat n else show_nat n)"

definition pad4 :: "nat \<Rightarrow> string" where
  "pad4 n = replicate (4 - length (show_nat n)) CHR ''0'' @ show_nat n"

definition pad6 :: "nat \<Rightarrow> string" where
  "pad6 n = replicate (6 - length (show_nat n)) CHR ''0'' @ show_nat n"

text \<open>
  A \<^verbatim>\<open>time.Time\<close> value, by the calendar fields that \<^verbatim>\<open>Format\<close> reads. The zero
  value of the type is January 1 of year 1, 00:00:00.
\<close>

record gotime =
  year :: nat
  month :: nat
  day :: nat
  hour :: nat
  minute :: nat
  second :: nat
  micro :: nat

definition zero_time :: gotime where
  "zero_time = \<lparr>year = 1, month = 1, day = 1, hour = 0, minute = 0, second = 0, micro = 0\<rparr>"

text \<open>The layouts \<^verbatim>\<open>2006-01-02.log\<close>, \<^verbatim>\<open>2006-01-02_15.log\<close> and \<^verbatim>\<open>2006-01-02_15-04.log\<close>.\<close>

definition format_day :: "gotime \<Rightarrow> string" where
  "format_day t = pad4 (year t) @ ''-'' @ pad2 (month t) @ ''-'' @ pad2 (day t) @ ''.log''"

definition format_hour :: "gotime \<Rightarrow> string" where
  "format_hour t =
     pad4 (year t) @ ''-'' @ pad2 (month t) @ ''-'' @ pad2 (day t) @ ''_'' @ pad2 (hour t) @ ''.log''"

definition format_minute :: "gotime \<Rightarrow> string" where
  "format_minute t =
     pad4 (year t) @ ''-'' @ pad2 (month t) @ ''-'' @ pad2 (day t) @ ''_'' @ pad2 (hour t)
       @ ''-'' @ pad2 (minute t) @ ''.log''"

text \<open>The layouts \<^verbatim>\<open>2006-01-02 15:04:05\<close> and \<^verbatim>\<open>2006-01-02 15:04:05.000000\<close>.\<close>

definition format_time :: "gotime \<Rightarrow> string" where
  "format_time t =
     pad4 (year t) @ ''-'' @ pad2 (month t) @ ''-'' @ pad2 (day t) @ '' '' @ pad2 (hour t)
       @ '':'' @ pad2 (minute t) @ '':'' @ pad2 (second t)"

definition format_ltime :: "gotime \<Rightarrow> string" where
  "format_ltime t = format_time t @ ''.'' @ pad6 (micro t)"

subsection \<open>Write jobs, the queue and the logger\<close>

text \<open>
  \<^verbatim>\<open>rotateArgs interface{}\<close> holds either the record's size (an \<^verbatim>\<open>int64\<close>) or the
  logging time.
\<close>

datatype rotateArgs = SizeArg int | TimeArg gotime

record writerArgs =
  recordStr :: string
  rotateArg :: rotateArgs

text \<open>An \<^verbatim>\<open>io.WriteCloser\<close>: one of the two console streams, or an opened file.\<close>

datatype writer = OsStdout | OsStderr | FileHandle nat

text \<open>
  The logger. \<open>writerChan\<close> is the buffer of the channel (a \<open>None\<close> entry is the nil
  job), \<open>chanCap\<close> its capacity and \<open>chanClosed\<close> whether \<^verbatim>\<open>close(writerChan)\<close> has
  run; \<open>doneClosed\<close> is whether \<^verbatim>\<open>close(done)\<close> has run.
\<close>

record logger =
  writers :: "Handler \<rightharpoonup> writer"
  writerChan :: "writerArgs option list"
  chanCap :: nat
  chanClosed :: bool
  logFormat :: "string list"
  levelThreshold :: Level
  handler :: Handler
  logDir :: string
  logFile :: string
  rotateType :: RotateStrategy
  rotateSize :: int
  doneClosed :: bool

subsection \<open>The operating system\<close>

text \<open>
  The file system maps a path to the size of the file there; \<open>handles\<close> are the files
  opened and not yet closed, by identity, with the path each was opened at. Whether
  \<^verbatim>\<open>os.Create\<close> and \<^verbatim>\<open>os.OpenFile\<close> succeed at a path is the environment's choice
  (\<open>creatable\<close>, \<open>openable\<close>). \<open>out\<close> and \<open>err\<close> are what was printed on the two
  console streams.
\<close>

record world =
  files :: "string \<rightharpoonup> int"
  handles :: "nat \<rightharpoonup> string"
  nextHandle :: nat
  creatable :: "string \<Rightarrow> bool"
  openable :: "string \<Rightarrow> bool"
  out :: "string list"
  err :: "string list"
  stdoutClosed :: bool
  stderrClosed :: bool

definition os_Create :: "world \<Rightarrow> string \<Rightarrow> world \<times> writer option" where
  "os_Create w path =
     (if creatable w path
      then (w\<lparr>files := (files w)(path \<mapsto> 0),
               handles := (handles w)(nextHandle w \<mapsto> path),
               nextHandle := Suc (nextHandle w)\<rparr>,
            Some (FileHandle (nextHandle w)))
      else (w, None))"

text \<open>\<^verbatim>\<open>os.OpenFile(path, os.O_WRONLY|os.O_APPEND, 0666)\<close>: no \<^verbatim>\<open>O_CREATE\<close>, the file must exist.\<close>

definition os_OpenFile :: "world \<Rightarrow> string \<Rightarrow> world \<times> writer option" where
  "os_OpenFile w path =
     (if files w path \<noteq> None \<and> openable w path
      then (w\<lparr>handles := (handles w)(nextHandle w \<mapsto> path),
               nextHandle := Suc (nextHandle w)\<rparr>,
            Some (FileHandle (nextHandle w)))
      else (w, None))"

fun w_Close :: "world \<Rightarrow> writer \<Rightarrow> world" where
  "w_Close w (FileHandle h) = w\<lparr>handles := (handles w)(h := None)\<rparr>"
| "w_Close w OsStdout = w\<lparr>stdoutClosed := True\<rparr>"
| "w_Close w OsStderr = w\<lparr>stderrClosed := True\<rparr>"

text \<open>\<^verbatim>\<open>fmt.Fprint(w, record)\<close>; an error of the write is dropped by the caller.\<close>

fun Fprint :: "world \<Rightarrow> writer \<Rightarrow> string \<Rightarrow> world" where
  "Fprint w OsStdout s = (if stdoutClosed w then w else w\<lparr>out := out w @ [s]\<rparr>)"
| "Fprint w OsStderr s = (if stderrClosed w then w else w\<lparr>err := err w @ [s]\<rparr>)"
| "Fprint w (FileHandle h) s =
     (case handles w h of
        None \<Rightarrow> w
      | Some path \<Rightarrow>
          (case files w path of
             None \<Rightarrow> w
           | Some sz \<Rightarrow> w\<lparr>files := (files w)(path \<mapsto> sz + int (length s))\<rparr>))"

text \<open>
  Modelled from the spec: \<^verbatim>\<open>getFileInfo\<close> (util/log/util.go, not among the sources)
  inspects a path's on-disk size and reports whether the file exists. The result
  \<open>None\<close> is "does not exist", \<open>Some size\<close> is "exists, with this size".
\<close>

definition getFileInfo :: "world \<Rightarrow> string \<Rightarrow> int option" where
  "getFileInfo w path = files w path"

text \<open>The value that a panic carries, as \<^verbatim>\<open>recover\<close> receives and prints it.\<close>

type_synonym panic = string

text \<open>
  The helpers whose code is not among the sources are parameters: \<^verbatim>\<open>filepath.Join\<close> of
  the standard library, and \<^verbatim>\<open>getSizeString\<close> and \<^verbatim>\<open>getNextFileName\<close> of
  util/log/util.go. \<^verbatim>\<open>getNextFileName\<close> slices its argument at the dots around the
  index, so a call of it either returns the next name (\<open>Inr\<close>) or panics (\<open>Inl\<close>).
\<close>

record env =
  pjoin :: "string \<Rightarrow> string \<Rightarrow> string"
  getSizeString :: "int \<Rightarrow> string"
  getNextFileName :: "string \<Rightarrow> panic + string"

text \<open>
  \<^verbatim>\<open>int64\<close> values are integers from \<open>- 2 ^ 63\<close> to \<open>2 ^ 63 - 1\<close>, and the sum of two of
  them wraps around.
\<close>

definition wrap64 :: "int \<Rightarrow> int" where
  "wrap64 x = (x + 2 ^ 63) mod 2 ^ 64 - 2 ^ 63"

definition int64_add :: "int \<Rightarrow> int \<Rightarrow> int" where
  "int64_add a b = wrap64 (a + b)"

subsection \<open>The producer side: \<^verbatim>\<open>logging\<close> and \<^verbatim>\<open>Close\<close>\<close>

text \<open>
  How a call of the producer ends: it returns (with the logger as it leaves it), it is
  parked on a full queue until the consumer frees a slot, or it panics.
\<close>

datatype 'a outcome = Returned 'a | Blocked | Panicked

text \<open>
  \<^verbatim>\<open>l.writerChan <- job\<close>: a send on a closed channel panics, a send on a full one
  blocks, any other send appends the job to the buffer.
\<close>

definition chan_send :: "logger \<Rightarrow> writerArgs option \<Rightarrow> logger outcome" where
  "chan_send l job =
     (if chanClosed l then Panicked
      else if length (writerChan l) < chanCap l
        then Returned (l\<lparr>writerChan := writerChan l @ [job]\<rparr>)
      else Blocked)"

text \<open>The caller's location, as \<^verbatim>\<open>runtime.Caller(2)\<close> and the path functions give it.\<close>

record callsite =
  csFile :: string
  csLine :: nat
  csFunc :: string

text \<open>
  The loop over \<^verbatim>\<open>l.logFormat\<close>. \<^verbatim>\<open>gLevelString[level]\<close> panics when the level is
  not an index of the array: the result is \<open>None\<close> then.
\<close>

fun render :: "Level \<Rightarrow> gotime \<Rightarrow> callsite \<Rightarrow> string \<Rightarrow> string list \<Rightarrow> string list option" where
  "render level now cs msg [] = Some []"
| "render level now cs msg (f # fs) =
     (if f = fmtLevel then
        (if unat level < length gLevelString
         then map_option ((#) (''['' @ gLevelString ! unat level @ '']'')) (render level now cs msg fs)
         else None)
      else if f = fmtLTime then map_option ((#) (format_ltime now)) (render level now cs msg fs)
      else if f = fmtTime then map_option ((#) (format_time now)) (render level now cs msg fs)
      else if f = fmtLocation then
        map_option ((#) (csFile cs @ '':'' @ show_nat (csLine cs) @ '':'' @ csFunc cs @ '':''))
          (render level now cs msg fs)
      else if f = fmtMsg then map_option ((#) msg) (render level now cs msg fs)
      else render level now cs msg fs)"

fun strings_Join :: "string list \<Rightarrow> string \<Rightarrow> string" where
  "strings_Join [] sep = []"
| "strings_Join [x] sep = x"
| "strings_Join (x # y # ys) sep = x @ sep @ strings_Join (y # ys) sep"

text \<open>
  \<open>msg\<close> is \<^verbatim>\<open>fmt.Sprintf(format, args...)\<close>, \<open>now\<close> is \<^verbatim>\<open>time.Now()\<close> and \<open>cs\<close> the
  caller's location.
\<close>

definition logging :: "logger \<Rightarrow> Level \<Rightarrow> string \<Rightarrow> gotime \<Rightarrow> callsite \<Rightarrow> logger outcome" where
  "logging l level msg now cs =
     (if handler l = HNone \<or> level < levelThreshold l then Returned l
      else
        (case render level now cs msg (logFormat l) of
           None \<Rightarrow> Panicked
         | Some buf \<Rightarrow>
             (let record = strings_Join buf '' '' in
              if rotateType l = RotateSize
              then chan_send l (Some \<lparr>recordStr = record, rotateArg = SizeArg (int (length record))\<rparr>)
              else chan_send l (Some \<lparr>recordStr = record, rotateArg = TimeArg now\<rparr>))))"

text \<open>
  \<^verbatim>\<open>Close\<close> is two statements, and the backend goroutine and other callers may run
  between them: the probe of \<open>done\<close> (\<^verbatim>\<open>select\<close> with a \<^verbatim>\<open>default\<close> case), on
  which the call returns when \<open>done\<close> is closed, and the send of the nil job, on the
  logger as it is by then.
\<close>

definition Close_probe :: "logger \<Rightarrow> bool" where
  "Close_probe l = doneClosed l"

definition Close_send :: "logger \<Rightarrow> logger outcome" where
  "Close_send l = chan_send l None"

definition SetHandler :: "logger \<Rightarrow> Handler \<Rightarrow> logger" where
  "SetHandler l h = l\<lparr>handler := h\<rparr>"

definition SetLogDir :: "logger \<Rightarrow> string \<Rightarrow> logger" where
  "SetLogDir l dir = l\<lparr>logDir := dir\<rparr>"

definition SetLogLevel :: "logger \<Rightarrow> Level \<Rightarrow> logger" where
  "SetLogLevel l level = l\<lparr>levelThreshold := level\<rparr>"

definition SetLogFormat :: "logger \<Rightarrow> string list \<Rightarrow> logger" where
  "SetLogFormat l fs = l\<lparr>logFormat := fs\<rparr>"

definition SetRotateType :: "logger \<Rightarrow> RotateStrategy \<Rightarrow> logger" where
  "SetRotateType l r = l\<lparr>rotateType := r\<rparr>"


text \<open>The fields that the constructor does not name have their zero values.\<close>

definition NewLogger :: logger where
  "NewLogger =
     \<lparr>writers = Map.empty, writerChan = [], chanCap = 100, chanClosed = False,
      logFormat = gDefaultLogFormat, levelThreshold = DEBUG, handler = HNone,
      logDir = [], logFile = [], rotateType = 0, rotateSize = 0, doneClosed = False\<rparr>"

subsection \<open>The rotation decision\<close>

text \<open>
  The probing loop of \<^verbatim>\<open>buildFileWriterBySize\<close>, over the logger's \<^verbatim>\<open>logDir\<close> and
  \<^verbatim>\<open>rotateSize\<close>. It has no bound of its own: it ends at the first name that is free or
  has room, or with the panic of \<^verbatim>\<open>getNextFileName\<close>. The outer \<open>None\<close> is the loop that
  never ends.
\<close>

partial_function (option) probe ::
  "env \<Rightarrow> world \<Rightarrow> string \<Rightarrow> int \<Rightarrow> int \<Rightarrow> string \<Rightarrow> (panic + string \<times> bool) option" where
  "probe e w dir maxSize recordSize fname =
     (case getFileInfo w (pjoin e dir fname) of
        None \<Rightarrow> Some (Inr (fname, True))
      | Some sz \<Rightarrow>
          if int64_add sz recordSize \<le> maxSize then Some (Inr (fname, False))
          else
            (case getNextFileName e fname of
               Inl p \<Rightarrow> Some (Inl p)
             | Inr next \<Rightarrow> probe e w dir maxSize recordSize next))"

definition buildFileWriterBySize ::
  "env \<Rightarrow> world \<Rightarrow> logger \<Rightarrow> int \<Rightarrow> (panic + string \<times> bool) option" where
  "buildFileWriterBySize e w l recordSize =
     (if logFile l = [] then
        probe e w (logDir l) (rotateSize l) recordSize
          (RotateSizeFilePrefix @ ''-'' @ getSizeString e (rotateSize l) @ ''.0.log'')
      else
        (case getFileInfo w (pjoin e (logDir l) (logFile l)) of
           None \<Rightarrow> Some (Inr (logFile l, True))
         | Some sz \<Rightarrow>
             if int64_add sz recordSize > rotateSize l
             then (case getNextFileName e (logFile l) of
                     Inl p \<Rightarrow> Some (Inl p)
                   | Inr next \<Rightarrow> Some (Inr (next, True)))
             else Some (Inr (logFile l, False))))"

text \<open>Lines 205 to 213 of \<^verbatim>\<open>buildFileWriter\<close>: the defaults of the file fields.\<close>

definition setDefaults :: "logger \<Rightarrow> logger" where
  "setDefaults l =
     (let l1 = (if logDir l = [] then l\<lparr>logDir := DefaultLogDir\<rparr> else l);
          l2 = (if rotateType l1 < RotateNone \<or> rotateType l1 > RotateSize
                then l1\<lparr>rotateType := DefaultRotateType\<rparr> else l1)
      in if rotateType l2 = RotateSize \<and> rotateSize l2 = 0
         then l2\<lparr>rotateSize := DefaultRotateSize\<rparr> else l2)"

text \<open>
  Lines 215 to 234: the file name and whether the file is to be created. A failed type
  assertion on the job's hint leaves the zero value of the type.
\<close>

definition rotation ::
  "env \<Rightarrow> world \<Rightarrow> logger \<Rightarrow> rotateArgs \<Rightarrow> (panic + string \<times> bool) option" where
  "rotation e w l args =
     (if rotateType l = RotateSize then
        buildFileWriterBySize e w l (case args of SizeArg n \<Rightarrow> n | TimeArg t \<Rightarrow> 0)
      else
        (let recordTime = (case args of TimeArg t \<Rightarrow> t | SizeArg n \<Rightarrow> zero_time);
             fname = (if rotateType l = RotateNone then ''default.log''
                      else if rotateType l = RotateDay then format_day recordTime
                      else if rotateType l = RotateHour then format_hour recordTime
                      else if rotateType l = RotateMinute then format_minute recordTime
                      else [])
         in Some (Inr (fname, getFileInfo w (pjoin e (logDir l) fname) = None))))"

subsection \<open>The destination set builder\<close>

text \<open>
  \<^verbatim>\<open>buildFileWriter\<close> returns the writer of the file destination and leaves the
  logger's file fields and the operating system as it changed them (\<open>Inr\<close>). When the
  decision panics the call is left with the logger as it is by then (\<open>Inl\<close>). The outer
  \<open>None\<close> is the call that never returns (the probing loop).
\<close>

definition buildFileWriter ::
  "env \<Rightarrow> world \<Rightarrow> logger \<Rightarrow> rotateArgs
     \<Rightarrow> (panic \<times> world \<times> logger + world \<times> logger \<times> writer) option" where
  "buildFileWriter e w l args =
     (if handler l AND File \<noteq> File then Some (Inr (w, l, OsStderr))
      else
        (let l0 = setDefaults l in
         case rotation e w l0 args of
           None \<Rightarrow> None
         | Some (Inl p) \<Rightarrow> Some (Inl (p, w, l0))
         | Some (Inr (fname, needCreateFile)) \<Rightarrow>
             (let l1 = l0\<lparr>logFile := fname\<rparr>;
                  path = pjoin e (logDir l1) (logFile l1)
              in if needCreateFile then
                   (let w1 = (case writers l1 File of Some x \<Rightarrow> w_Close w x | None \<Rightarrow> w)
                    in case os_Create w1 path of
                         (w2, Some wr) \<Rightarrow> Some (Inr (w2, l1, wr))
                       | (w2, None) \<Rightarrow> Some (Inr (w2, l1, OsStderr)))
                 else
                   (case writers l1 File of
                      Some x \<Rightarrow> Some (Inr (w, l1, x))
                    | None \<Rightarrow>
                        (case os_OpenFile w path of
                           (w2, Some wr) \<Rightarrow> Some (Inr (w2, l1, wr))
                         | (w2, None) \<Rightarrow> Some (Inr (w2, l1, OsStderr)))))))"

definition buildWriter ::
  "env \<Rightarrow> world \<Rightarrow> logger \<Rightarrow> rotateArgs \<Rightarrow> (panic \<times> world \<times> logger + world \<times> logger) option" where
  "buildWriter e w l args =
     (let l1 = (if handler l AND Stdout = Stdout
                then l\<lparr>writers := (writers l)(Stdout \<mapsto> OsStdout)\<rparr>
                else l\<lparr>writers := (writers l)(Stdout := None)\<rparr>);
          l2 = (if handler l1 AND Stderr = Stderr
                then l1\<lparr>writers := (writers l1)(Stderr \<mapsto> OsStderr)\<rparr>
                else l1\<lparr>writers := (writers l1)(Stderr := None)\<rparr>)
      in if handler l2 AND File = File then
           (case buildFileWriter e w l2 args of
              None \<Rightarrow> None
            | Some (Inl pwl) \<Rightarrow> Some (Inl pwl)
            | Some (Inr (w', l3, wr)) \<Rightarrow> Some (Inr (w', l3\<lparr>writers := (writers l3)(File \<mapsto> wr)\<rparr>)))
         else Some (Inr (w, l2\<lparr>writers := (writers l2)(File := None)\<rparr>)))"

subsection \<open>The backend writer goroutine\<close>

text \<open>
  \<^verbatim>\<open>for _, w := range obj.writers { fmt.Fprint(w, args.record) }\<close>. The map holds the
  keys \<open>Stdout\<close>, \<open>Stderr\<close> and \<open>File\<close> only, and the writes to different destinations do
  not depend on their order.
\<close>

definition write_all :: "world \<Rightarrow> logger \<Rightarrow> string \<Rightarrow> world" where
  "write_all w l s =
     foldl (\<lambda>w' k. case writers l k of None \<Rightarrow> w' | Some x \<Rightarrow> Fprint w' x s) w
       [Stdout, Stderr, File]"

datatype task = Running | Stopped

text \<open>
  One turn of the goroutine's loop: it returns when \<open>done\<close> is closed, waits on an empty
  queue, ends on the nil job after closing \<open>done\<close> and the queue, and otherwise rebuilds
  the writers with the job's hint and prints the record on each. The errors of
  \<^verbatim>\<open>Close\<close> and \<^verbatim>\<open>Fprint\<close> are dropped. A panic of the rebuilding is caught by the
  deferred \<^verbatim>\<open>recover\<close>, which prints it with \<^verbatim>\<open>fmt.Println\<close>; the goroutine is over
  then, with \<open>done\<close> and the queue still open. \<open>None\<close> is the turn that never ends.
\<close>

definition backend_step ::
  "env \<Rightarrow> world \<times> logger \<times> task \<Rightarrow> (world \<times> logger \<times> task) option" where
  "backend_step e st =
     (case st of (w, l, t) \<Rightarrow>
        if t = Stopped then Some (w, l, Stopped)
        else if doneClosed l then Some (w, l, Stopped)
        else
          (case writerChan l of
             [] \<Rightarrow> Some (w, l, Running)
           | None # rest \<Rightarrow>
               Some (w, l\<lparr>writerChan := rest, chanClosed := True, doneClosed := True\<rparr>, Stopped)
           | Some args # rest \<Rightarrow>
               (case buildWriter e w (l\<lparr>writerChan := rest\<rparr>) (rotateArg args) of
                  None \<Rightarrow> None
                | Some (Inl (p, w', l')) \<Rightarrow> Some (Fprint w' OsStdout (p @ [CHR 0x0A]), l', Stopped)
                | Some (Inr (w', l')) \<Rightarrow> Some (write_all w' l' (recordStr args), l', Running))))"

text \<open>The file handles that are open: opened and not yet closed.\<close>

definition open_handles :: "world \<Rightarrow> nat set" where
  "open_handles w = dom (handles w)"

subsection \<open>Sample inputs\<close>

text \<open>
  A time, a call site, an operating system with no file yet, and an instance of the
  helper functions (one that knows the first rotating names of the ceiling 100 and panics
  on any other name), on which the theorems below are instantiated.
\<close>

definition sample_time :: gotime where
  "sample_time = \<lparr>year = 2024, month = 3, day = 7, hour = 9, minute = 5, second = 2, micro = 41\<rparr>"

definition sample_site :: callsite where
  "sample_site = \<lparr>csFile = ''main.go'', csLine = 12, csFunc = ''main''\<rparr>"

definition sample_env :: env where
  "sample_env =
     \<lparr>pjoin = (\<lambda>d f. d @ ''/'' @ f),
      getSizeString = (\<lambda>n. show_nat (nat n) @ ''B''),
      getNextFileName =
        (\<lambda>f. if f = ''rotating-100B.0.log'' then Inr ''rotating-100B.1.log''
             else if f = ''rotating-100B.1.log'' then Inr ''rotating-100B.2.log''
             else Inl ''slice bounds out of range'')\<rparr>"

definition empty_world :: world where
  "empty_world =
     \<lparr>files = Map.empty, handles = Map.empty, nextHandle = 0,
      creatable = (\<lambda>p. True), openable = (\<lambda>p. True),
      out = [], err = [], stdoutClosed = False, stderrClosed = False\<rparr>"

definition readonly_world :: world where
  "readonly_world = empty_world\<lparr>creatable := (\<lambda>p. False)\<rparr>"

definition default_world :: world where
  "default_world = empty_world\<lparr>files := [''/tmp/default.log'' \<mapsto> 7]\<rparr>"



definition sample_job :: writerArgs where
  "sample_job = \<lparr>recordStr = ''r'', rotateArg = TimeArg sample_time\<rparr>"

section \<open>Properties of the logger\<close>

subsection \<open>The level filter and the constructor\<close>

lemma render_total: "L \<le> PANIC \<Longrightarrow> \<exists>buf. render L now cs msg fs = Some buf"
proof (induction fs)
  case Nil show ?case by simp
next
  case (Cons f fs)
  from Cons.prems have "unat L < 6"
    by (simp add: PANIC_def word_le_nat_alt)
  with Cons show ?case by (auto simp: gLevelString_def)
qed

lemma logger_queue_neq: "l = l\<lparr>writerChan := writerChan l @ [j]\<rparr> \<Longrightarrow> False"
proof -
  assume "l = l\<lparr>writerChan := writerChan l @ [j]\<rparr>"
  then have "writerChan l = writerChan (l\<lparr>writerChan := writerChan l @ [j]\<rparr>)" by simp
  then show False by simp
qed

text \<open>
  Claim C10. The logger that \<^verbatim>\<open>NewLogger\<close> returns has no handler, the threshold
  \<open>DEBUG\<close>, the default format of the four tokens level, ltime, location and msg, and a
  queue of capacity 100 that is empty. So a logging call on it, at any level and with any
  message, returns with the logger unchanged and nothing queued, and the backend
  goroutine finds nothing to write.
\<close>

theorem NewLogger_silent:
  "handler NewLogger = HNone \<and> levelThreshold NewLogger = DEBUG
   \<and> logFormat NewLogger = [''level'', ''ltime'', ''location'', ''msg'']
   \<and> chanCap NewLogger = 100 \<and> writerChan NewLogger = []
   \<and> logging NewLogger level msg now cs = Returned NewLogger
   \<and> backend_step e (w, NewLogger, Running) = Some (w, NewLogger, Running)"
  by (simp add: NewLogger_def logging_def backend_step_def gDefaultLogFormat_def
      fmtLevel_def fmtLTime_def fmtLocation_def fmtMsg_def)

text \<open>Claim C10 at level \<open>PANIC\<close>.\<close>

theorem NewLogger_silent_witness:
  "logging NewLogger PANIC ''boom'' sample_time sample_site = Returned NewLogger
   \<and> writerChan NewLogger = []"
  using NewLogger_silent [of PANIC "''boom''" sample_time sample_site sample_env empty_world]
  by simp

text \<open>
  What the filter does while the queue is open, for a level \<open>L\<close> among the six
  severities: a call with no handler or below the threshold returns with the logger
  unchanged; with a free slot, the call returns with exactly one job appended if and only
  if there is a handler and \<open>L\<close> is at least the threshold; a call that passes the filter
  on a full queue is parked on its send.
\<close>

lemma logging_on_open_queue:
  assumes "\<not> chanClosed l" and "L \<le> PANIC"
  shows "(handler l = HNone \<or> L < levelThreshold l \<longrightarrow> logging l L msg now cs = Returned l)
    \<and> (length (writerChan l) < chanCap l \<longrightarrow>
         (\<exists>job. logging l L msg now cs = Returned (l\<lparr>writerChan := writerChan l @ [Some job]\<rparr>))
           = (handler l \<noteq> HNone \<and> levelThreshold l \<le> L))
    \<and> (handler l \<noteq> HNone \<and> levelThreshold l \<le> L \<and> \<not> length (writerChan l) < chanCap l \<longrightarrow>
         logging l L msg now cs = Blocked)"
proof -
  obtain buf where buf: "render L now cs msg (logFormat l) = Some buf"
    using render_total [OF assms(2)] by blast
  have early: "handler l = HNone \<or> L < levelThreshold l \<Longrightarrow> logging l L msg now cs = Returned l"
    by (simp add: logging_def)
  have pass: "handler l \<noteq> HNone \<Longrightarrow> levelThreshold l \<le> L \<Longrightarrow>
      \<exists>job. logging l L msg now cs = chan_send l (Some job)"
    using buf by (auto simp: logging_def Let_def)
  show ?thesis
  proof (intro conjI impI)
    assume "handler l = HNone \<or> L < levelThreshold l"
    then show "logging l L msg now cs = Returned l" by (rule early)
  next
    assume room: "length (writerChan l) < chanCap l"
    show "(\<exists>job. logging l L msg now cs = Returned (l\<lparr>writerChan := writerChan l @ [Some job]\<rparr>))
           = (handler l \<noteq> HNone \<and> levelThreshold l \<le> L)"
    proof (cases "handler l \<noteq> HNone \<and> levelThreshold l \<le> L")
      case True
      then obtain job where "logging l L msg now cs = chan_send l (Some job)"
        using pass by blast
      with room assms(1) True show ?thesis by (auto simp: chan_send_def)
    next
      case False
      then have "handler l = HNone \<or> L < levelThreshold l" by (auto simp: not_le)
      then have "logging l L msg now cs = Returned l" by (rule early)
      with False show ?thesis by (auto dest: logger_queue_neq)
    qed
  next
    assume a: "handler l \<noteq> HNone \<and> levelThreshold l \<le> L \<and> \<not> length (writerChan l) < chanCap l"
    then obtain job where "logging l L msg now cs = chan_send l (Some job)"
      using pass by blast
    with a assms(1) show "logging l L msg now cs = Blocked" by (simp add: chan_send_def)
  qed
qed

text \<open>
  Claim C1 fails on the code once the logger is shut down. \<^verbatim>\<open>Close\<close> probes \<open>done\<close>
  before it sends; \<^verbatim>\<open>logging\<close> sends without a probe. After a \<^verbatim>\<open>Close\<close> and the
  goroutine's turn on the nil job the queue is closed, and a call at \<open>INFO\<close> on a logger
  with a handler and the threshold \<open>DEBUG\<close> panics on its send, where the claim has it
  queue one job.
\<close>

theorem logging_after_shutdown_panics:
  "\<not> Close_probe (SetHandler NewLogger Stdout)
   \<and> Close_send (SetHandler NewLogger Stdout)
     = Returned ((SetHandler NewLogger Stdout)\<lparr>writerChan := [None]\<rparr>)
   \<and> backend_step sample_env
        (empty_world, (SetHandler NewLogger Stdout)\<lparr>writerChan := [None]\<rparr>, Running)
     = Some (empty_world,
         (SetHandler NewLogger Stdout)\<lparr>writerChan := [], chanClosed := True, doneClosed := True\<rparr>,
         Stopped)
   \<and> handler ((SetHandler NewLogger Stdout)\<lparr>writerChan := [], chanClosed := True, doneClosed := True\<rparr>)
       \<noteq> HNone
   \<and> levelThreshold ((SetHandler NewLogger Stdout)\<lparr>writerChan := [], chanClosed := True, doneClosed := True\<rparr>)
       \<le> INFO
   \<and> logging ((SetHandler NewLogger Stdout)\<lparr>writerChan := [], chanClosed := True, doneClosed := True\<rparr>)
        INFO ''m'' sample_time sample_site = Panicked"
  by (simp add: Close_probe_def Close_send_def chan_send_def backend_step_def logging_def
      SetHandler_def NewLogger_def INFO_def HNone_def Stdout_def DEBUG_def gDefaultLogFormat_def
      fmtLevel_def fmtLTime_def fmtTime_def fmtLocation_def fmtMsg_def gLevelString_def Let_def)

subsection \<open>Shutdown\<close>

text \<open>
  What holds of the shutdown whatever the interleaving: a probe that finds \<open>done\<close> closed
  ends the call with the logger as it is; the goroutine's turn on the nil job closes
  \<open>done\<close> and the queue and stops the task; and a stopped task, or one that finds \<open>done\<close>
  closed, leaves the logger and the operating system as they are, whatever is queued.
\<close>

lemma shutdown_steps:
  "Close_probe l = doneClosed l"
  "\<not> doneClosed l \<Longrightarrow> writerChan l = None # rest \<Longrightarrow>
     backend_step e (w, l, Running)
       = Some (w, l\<lparr>writerChan := rest, chanClosed := True, doneClosed := True\<rparr>, Stopped)"
  "backend_step e (w, l, Stopped) = Some (w, l, Stopped)"
  "doneClosed l \<Longrightarrow> backend_step e (w, l, t) = Some (w, l, Stopped)"
  by (simp_all add: Close_probe_def backend_step_def)

text \<open>
  Claim C3 fails on the code. The probe of \<open>done\<close> and the send of the nil job are two
  statements. A first \<^verbatim>\<open>Close\<close> queues the nil job. A second \<^verbatim>\<open>Close\<close> probes \<open>done\<close>,
  which is still open; the goroutine then takes the first nil job and closes \<open>done\<close> and
  the queue; the second call goes on to its send, on a closed queue, and panics, where
  the claim has every further \<^verbatim>\<open>Close\<close> be without effect.
\<close>

theorem Close_race_panics:
  "\<not> Close_probe NewLogger
   \<and> Close_send NewLogger = Returned (NewLogger\<lparr>writerChan := [None]\<rparr>)
   \<and> \<not> Close_probe (NewLogger\<lparr>writerChan := [None]\<rparr>)
   \<and> backend_step sample_env (empty_world, NewLogger\<lparr>writerChan := [None]\<rparr>, Running)
     = Some (empty_world,
             NewLogger\<lparr>writerChan := [], chanClosed := True, doneClosed := True\<rparr>, Stopped)
   \<and> Close_send (NewLogger\<lparr>writerChan := [], chanClosed := True, doneClosed := True\<rparr>)
     = Panicked"
  by (simp add: Close_probe_def Close_send_def chan_send_def backend_step_def NewLogger_def)

subsection \<open>The layouts of the file names\<close>

lemma show_nat_1: "n < 10 \<Longrightarrow> show_nat n = [digit n]"
  by (subst show_nat.simps) simp

lemma show_nat_2: "10 \<le> n \<Longrightarrow> n < 100 \<Longrightarrow> show_nat n = [digit (n div 10), digit n]"
  by (subst show_nat.simps) (simp add: show_nat_1)

lemma show_nat_3: "100 \<le> n \<Longrightarrow> n < 1000 \<Longrightarrow>
    show_nat n = [digit (n div 100), digit (n div 10), digit n]"
proof -
  assume n: "100 \<le> n" "n < 1000"
  have d: "n div 10 div 10 = n div 100" using div_mult2_eq [of n 10 10] by simp
  have "show_nat n = show_nat (n div 10) @ [digit n]"
    using n by (subst show_nat.simps) simp
  also have "show_nat (n div 10) = [digit (n div 10 div 10), digit (n div 10)]"
    using n by (intro show_nat_2) auto
  finally show ?thesis by (simp add: d)
qed

lemma show_nat_4: "1000 \<le> n \<Longrightarrow> n < 10000 \<Longrightarrow>
    show_nat n = [digit (n div 1000), digit (n div 100), digit (n div 10), digit n]"
proof -
  assume n: "1000 \<le> n" "n < 10000"
  have d: "n div 10 div 100 = n div 1000" "n div 10 div 10 = n div 100"
    using div_mult2_eq [of n 10 100] div_mult2_eq [of n 10 10] by simp_all
  have "show_nat n = show_nat (n div 10) @ [digit n]"
    using n by (subst show_nat.simps) simp
  also have "show_nat (n div 10)
      = [digit (n div 10 div 100), digit (n div 10 div 10), digit (n div 10)]"
    using n by (intro show_nat_3) auto
  finally show ?thesis by (simp add: d)
qed

lemma digit_zero: "digit 0 = CHR ''0''"
  by (simp add: digit_def)

lemma pad2_digits: "n < 100 \<Longrightarrow> pad2 n = [digit (n div 10), digit n]"
  by (cases "n < 10") (simp_all add: pad2_def show_nat_1 show_nat_2 digit_zero)

lemma replicate_3: "replicate 3 x = [x, x, x]" and replicate_2: "replicate 2 x = [x, x]"
  by (simp_all add: numeral_eq_Suc)

lemma pad4_digits: "n < 10000 \<Longrightarrow>
    pad4 n = [digit (n div 1000), digit (n div 100), digit (n div 10), digit n]"
proof -
  assume n: "n < 10000"
  consider "n < 10" | "10 \<le> n" "n < 100" | "100 \<le> n" "n < 1000" | "1000 \<le> n"
    by linarith
  then show ?thesis
  proof cases
    case 1
    then have "digit (n div 1000) = CHR ''0''" "digit (n div 100) = CHR ''0''"
        "digit (n div 10) = CHR ''0''"
      by (simp_all add: digit_zero)
    with 1 show ?thesis by (simp add: pad4_def show_nat_1 replicate_3)
  next
    case 2
    then have "digit (n div 1000) = CHR ''0''" "digit (n div 100) = CHR ''0''"
      by (simp_all add: digit_zero)
    with 2 show ?thesis by (simp add: pad4_def show_nat_2 replicate_2)
  next
    case 3
    then have "digit (n div 1000) = CHR ''0''"
      by (simp_all add: digit_zero)
    with 3 show ?thesis by (simp add: pad4_def show_nat_3)
  next
    case 4 with n show ?thesis by (simp add: pad4_def show_nat_4)
  qed
qed

lemma setDefaults_rotateType:
  "rotateType l \<le> RotateSize \<Longrightarrow> rotateType (setDefaults l) = rotateType l"
  by (auto simp: setDefaults_def Let_def RotateNone_def)


subsection \<open>Rotation by size\<close>

lemma int64_add_exact: "- (2 ^ 63) \<le> a + b \<Longrightarrow> a + b < 2 ^ 63 \<Longrightarrow> int64_add a b = a + b"
  by (simp add: int64_add_def wrap64_def)


subsection \<open>Rotation by the calendar\<close>

lemma rotation_calendar:
  "rotateType l \<noteq> RotateSize \<Longrightarrow>
   rotation e w l args =
     Some (Inr (if rotateType l = RotateNone then ''default.log''
           else if rotateType l = RotateDay
             then format_day (case args of TimeArg t \<Rightarrow> t | SizeArg n \<Rightarrow> zero_time)
           else if rotateType l = RotateHour
             then format_hour (case args of TimeArg t \<Rightarrow> t | SizeArg n \<Rightarrow> zero_time)
           else if rotateType l = RotateMinute
             then format_minute (case args of TimeArg t \<Rightarrow> t | SizeArg n \<Rightarrow> zero_time)
           else [],
           files w (pjoin e (logDir l)
             (if rotateType l = RotateNone then ''default.log''
              else if rotateType l = RotateDay
                then format_day (case args of TimeArg t \<Rightarrow> t | SizeArg n \<Rightarrow> zero_time)
              else if rotateType l = RotateHour
                then format_hour (case args of TimeArg t \<Rightarrow> t | SizeArg n \<Rightarrow> zero_time)
              else if rotateType l = RotateMinute
                then format_minute (case args of TimeArg t \<Rightarrow> t | SizeArg n \<Rightarrow> zero_time)
              else [])) = None))"
  by (simp add: rotation_def Let_def getFileInfo_def)

lemma buildFileWriter_decided:
  "handler l AND File = File \<Longrightarrow> rotation e w (setDefaults l) args = Some (Inr (fname, need)) \<Longrightarrow>
   \<exists>w' wr. buildFileWriter e w l args = Some (Inr (w', (setDefaults l)\<lparr>logFile := fname\<rparr>, wr))"
  by (auto simp: buildFileWriter_def Let_def split: option.splits prod.splits sum.splits)

text \<open>
  Claim C5, as amended. Under \<open>RotateNone\<close> the file name is always \<open>default.log\<close>, and
  the file is to be created if and only if no file \<open>default.log\<close> exists in the log
  directory when the decision is taken, whether or not a file name is recorded on the
  logger; \<^verbatim>\<open>buildFileWriter\<close> records that name.
\<close>

theorem rotate_none_decision:
  assumes "rotateType l = RotateNone"
  shows "rotation e w (setDefaults l) args
      = Some (Inr (''default.log'', files w (pjoin e (logDir (setDefaults l)) ''default.log'') = None))
    \<and> (handler l AND File = File \<longrightarrow>
         (\<exists>w' wr. buildFileWriter e w l args
            = Some (Inr (w', (setDefaults l)\<lparr>logFile := ''default.log''\<rparr>, wr))))"
proof -
  from assms have rt: "rotateType (setDefaults l) = RotateNone"
    by (simp add: setDefaults_rotateType RotateNone_def RotateSize_def)
  then have r: "rotation e w (setDefaults l) args
      = Some (Inr (''default.log'', files w (pjoin e (logDir (setDefaults l)) ''default.log'') = None))"
    by (simp add: rotation_calendar RotateNone_def RotateSize_def)
  with buildFileWriter_decided [of l e w args] show ?thesis by blast
qed

text \<open>
  Claim C6. Under \<open>RotateDay\<close>, \<open>RotateHour\<close> and \<open>RotateMinute\<close> the file name is the
  job's time in the layout of the strategy, and the file is to be created if and only if
  no file of that name exists in the log directory. For a year of four digits the three
  layouts are \<open>YYYY-MM-DD.log\<close>, \<open>YYYY-MM-DD_HH.log\<close> and \<open>YYYY-MM-DD_HH-MM.log\<close>.
\<close>

theorem rotate_calendar_decision:
  "(rotateType l = RotateDay \<longrightarrow>
      rotation e w (setDefaults l) (TimeArg t)
        = Some (Inr (format_day t, files w (pjoin e (logDir (setDefaults l)) (format_day t)) = None)))
   \<and> (rotateType l = RotateHour \<longrightarrow>
      rotation e w (setDefaults l) (TimeArg t)
        = Some (Inr (format_hour t, files w (pjoin e (logDir (setDefaults l)) (format_hour t)) = None)))
   \<and> (rotateType l = RotateMinute \<longrightarrow>
      rotation e w (setDefaults l) (TimeArg t)
        = Some (Inr (format_minute t,
                files w (pjoin e (logDir (setDefaults l)) (format_minute t)) = None)))
   \<and> (year t < 10000 \<and> month t < 100 \<and> day t < 100 \<and> hour t < 100 \<and> minute t < 100 \<longrightarrow>
        format_day t
          = [digit (year t div 1000), digit (year t div 100), digit (year t div 10),
             digit (year t), CHR ''-'', digit (month t div 10), digit (month t), CHR ''-'',
             digit (day t div 10), digit (day t)] @ ''.log''
        \<and> format_hour t
          = [digit (year t div 1000), digit (year t div 100), digit (year t div 10),
             digit (year t), CHR ''-'', digit (month t div 10), digit (month t), CHR ''-'',
             digit (day t div 10), digit (day t), CHR ''_'', digit (hour t div 10),
             digit (hour t)] @ ''.log''
        \<and> format_minute t
          = [digit (year t div 1000), digit (year t div 100), digit (year t div 10),
             digit (year t), CHR ''-'', digit (month t div 10), digit (month t), CHR ''-'',
             digit (day t div 10), digit (day t), CHR ''_'', digit (hour t div 10),
             digit (hour t), CHR ''-'', digit (minute t div 10), digit (minute t)] @ ''.log'')"
proof (intro conjI impI)
  assume "rotateType l = RotateDay"
  then have "rotateType (setDefaults l) = RotateDay"
    by (simp add: setDefaults_rotateType RotateDay_def RotateSize_def)
  then show "rotation e w (setDefaults l) (TimeArg t)
        = Some (Inr (format_day t, files w (pjoin e (logDir (setDefaults l)) (format_day t)) = None))"
    by (simp add: rotation_calendar RotateNone_def RotateDay_def RotateSize_def)
next
  assume "rotateType l = RotateHour"
  then have "rotateType (setDefaults l) = RotateHour"
    by (simp add: setDefaults_rotateType RotateHour_def RotateSize_def)
  then show "rotation e w (setDefaults l) (TimeArg t)
        = Some (Inr (format_hour t, files w (pjoin e (logDir (setDefaults l)) (format_hour t)) = None))"
    by (simp add: rotation_calendar RotateNone_def RotateDay_def RotateHour_def RotateSize_def)
next
  assume "rotateType l = RotateMinute"
  then have "rotateType (setDefaults l) = RotateMinute"
    by (simp add: setDefaults_rotateType RotateMinute_def RotateSize_def)
  then show "rotation e w (setDefaults l) (TimeArg t)
        = Some (Inr (format_minute t,
                files w (pjoin e (logDir (setDefaults l)) (format_minute t)) = None))"
    by (simp add: rotation_calendar RotateNone_def RotateDay_def RotateHour_def
        RotateMinute_def RotateSize_def)
next
  assume r: "year t < 10000 \<and> month t < 100 \<and> day t < 100 \<and> hour t < 100 \<and> minute t < 100"
  then show "format_day t
          = [digit (year t div 1000), digit (year t div 100), digit (year t div 10),
             digit (year t), CHR ''-'', digit (month t div 10), digit (month t), CHR ''-'',
             digit (day t div 10), digit (day t)] @ ''.log''"
    by (simp add: format_day_def pad4_digits pad2_digits)
  from r show "format_hour t
          = [digit (year t div 1000), digit (year t div 100), digit (year t div 10),
             digit (year t), CHR ''-'', digit (month t div 10), digit (month t), CHR ''-'',
             digit (day t div 10), digit (day t), CHR ''_'', digit (hour t div 10),
             digit (hour t)] @ ''.log''"
    by (simp add: format_hour_def pad4_digits pad2_digits)
  from r show "format_minute t
          = [digit (year t div 1000), digit (year t div 100), digit (year t div 10),
             digit (year t), CHR ''-'', digit (month t div 10), digit (month t), CHR ''-'',
             digit (day t div 10), digit (day t), CHR ''_'', digit (hour t div 10),
             digit (hour t), CHR ''-'', digit (minute t div 10), digit (minute t)] @ ''.log''"
    by (simp add: format_minute_def pad4_digits pad2_digits)
qed

text \<open>The amended claim C5 on a new logger, without and with a file \<open>default.log\<close>.\<close>

theorem rotate_none_decision_witness:
  "rotateType (SetHandler NewLogger File) = RotateNone
   \<and> handler (SetHandler NewLogger File) AND File = File
   \<and> rotation sample_env empty_world (setDefaults (SetHandler NewLogger File)) (TimeArg sample_time)
       = Some (Inr (''default.log'', True))
   \<and> rotation sample_env default_world (setDefaults (SetHandler NewLogger File)) (TimeArg sample_time)
       = Some (Inr (''default.log'', False))
   \<and> (\<exists>w' wr. buildFileWriter sample_env empty_world (SetHandler NewLogger File) (TimeArg sample_time)
         = Some (Inr (w', (setDefaults (SetHandler NewLogger File))\<lparr>logFile := ''default.log''\<rparr>, wr)))"
  using rotate_none_decision
      [of "SetHandler NewLogger File" sample_env empty_world "TimeArg sample_time"]
    rotate_none_decision
      [of "SetHandler NewLogger File" sample_env default_world "TimeArg sample_time"]
  by (simp add: SetHandler_def NewLogger_def RotateNone_def File_def setDefaults_def Let_def
      DefaultLogDir_def RotateSize_def sample_env_def empty_world_def default_world_def)

text \<open>
  Claim C5 as stated fails in both directions. Where the file cannot be created, the
  first call records \<open>default.log\<close> and falls back to the console, and the next decision
  asks for the file again although a name is recorded. Where \<open>default.log\<close> is already
  there, a new logger with no name recorded does not ask for it.
\<close>

theorem rotate_none_counterexample:
  "buildFileWriter sample_env readonly_world (SetHandler NewLogger File) (TimeArg sample_time)
     = Some (Inr (readonly_world,
             NewLogger\<lparr>handler := File, logDir := ''/tmp'', logFile := ''default.log''\<rparr>,
             OsStderr))
   \<and> logFile (NewLogger\<lparr>handler := File, logDir := ''/tmp'', logFile := ''default.log''\<rparr>) \<noteq> []
   \<and> rotateType (NewLogger\<lparr>handler := File, logDir := ''/tmp'', logFile := ''default.log''\<rparr>)
       = RotateNone
   \<and> rotation sample_env readonly_world
        (setDefaults (NewLogger\<lparr>handler := File, logDir := ''/tmp'', logFile := ''default.log''\<rparr>))
        (TimeArg sample_time)
       = Some (Inr (''default.log'', True))
   \<and> logFile (SetHandler NewLogger File) = []
   \<and> rotation sample_env default_world (setDefaults (SetHandler NewLogger File))
        (TimeArg sample_time)
       = Some (Inr (''default.log'', False))"
  by (simp add: buildFileWriter_def rotation_def setDefaults_def Let_def getFileInfo_def
      os_Create_def SetHandler_def NewLogger_def RotateNone_def RotateSize_def File_def
      DefaultLogDir_def sample_env_def empty_world_def readonly_world_def default_world_def)

text \<open>Claim C6 on March 7, 2024, 09:05, for the three strategies.\<close>

theorem rotate_calendar_decision_witness:
  "rotation sample_env empty_world (setDefaults (NewLogger\<lparr>rotateType := RotateDay\<rparr>))
       (TimeArg sample_time)
     = Some (Inr (''2024-03-07.log'', True))
   \<and> rotation sample_env (empty_world\<lparr>files := [''/tmp/2024-03-07_09.log'' \<mapsto> 0]\<rparr>)
       (setDefaults (NewLogger\<lparr>rotateType := RotateHour\<rparr>)) (TimeArg sample_time)
     = Some (Inr (''2024-03-07_09.log'', False))
   \<and> rotation sample_env empty_world (setDefaults (NewLogger\<lparr>rotateType := RotateMinute\<rparr>))
       (TimeArg sample_time)
     = Some (Inr (''2024-03-07_09-05.log'', True))"
  using rotate_calendar_decision
      [of "NewLogger\<lparr>rotateType := RotateDay\<rparr>" sample_env empty_world sample_time]
    rotate_calendar_decision
      [of "NewLogger\<lparr>rotateType := RotateHour\<rparr>" sample_env
          "empty_world\<lparr>files := [''/tmp/2024-03-07_09.log'' \<mapsto> 0]\<rparr>" sample_time]
    rotate_calendar_decision
      [of "NewLogger\<lparr>rotateType := RotateMinute\<rparr>" sample_env empty_world sample_time]
  by (simp add: NewLogger_def RotateDay_def RotateHour_def RotateMinute_def setDefaults_def
      Let_def RotateNone_def RotateSize_def DefaultLogDir_def sample_env_def empty_world_def
      sample_time_def digit_def)

subsection \<open>The file destination\<close>


lemma setDefaults_rotateType_eq:
  "rotateType (setDefaults l)
     = (if rotateType l < RotateNone \<or> rotateType l > RotateSize then DefaultRotateType
        else rotateType l)"
  by (auto simp: setDefaults_def Let_def RotateNone_def RotateSize_def)







lemma buildWriter_File:
  assumes "handler l AND File = File"
  shows "buildWriter e w l args =
    (case buildFileWriter e w
        (l\<lparr>writers := (writers l)
           (Stdout := if handler l AND Stdout = Stdout then Some OsStdout else None,
            Stderr := if handler l AND Stderr = Stderr then Some OsStderr else None)\<rparr>) args of
       None \<Rightarrow> None
     | Some (Inl pwl) \<Rightarrow> Some (Inl pwl)
     | Some (Inr (w', l3, wr)) \<Rightarrow> Some (Inr (w', l3\<lparr>writers := (writers l3)(File \<mapsto> wr)\<rparr>)))"
  using assms by (simp add: buildWriter_def Let_def)






text \<open>
  Claim C7 fails on the code. The first job goes to a log directory in which no file can
  be created: the destination falls back to standard error, and \<^verbatim>\<open>buildWriter\<close> keeps
  that stream in the slot of the file destination. After \<^verbatim>\<open>SetLogDir\<close> to a directory
  where \<open>default.log\<close> exists and can be opened, the decision on the second job asks for
  no new file and no file handle is open, so the claim has the file opened for append.
  The branch commented "Already open the file" returns the standard error stream from the
  slot instead: \<^verbatim>\<open>os.OpenFile\<close> is not reached, no handle is opened and the record goes
  to standard error again.
\<close>

theorem stale_fallback_not_reopened:
  "Option.bind
     (backend_step sample_env
        (default_world\<lparr>creatable := (\<lambda>p. p \<noteq> ''/nonexistent/default.log'')\<rparr>,
         (SetLogDir (SetHandler NewLogger File) ''/nonexistent'')\<lparr>writerChan := [Some sample_job]\<rparr>,
         Running))
     (\<lambda>(w1, l1, t1). map_option
        (\<lambda>(w2, l2, t2).
           (writers l1 File,
            rotation sample_env w1 (setDefaults (SetLogDir l1 ''/tmp'')) (TimeArg sample_time),
            files w1 ''/tmp/default.log'', openable w1 ''/tmp/default.log'', open_handles w1,
            writers l2 File, open_handles w2, err w2, t2))
        (backend_step sample_env
           (w1, (SetLogDir l1 ''/tmp'')\<lparr>writerChan := [Some sample_job]\<rparr>, t1)))
   = Some (Some OsStderr, Some (Inr (''default.log'', False)), Some 7, True, {},
           Some OsStderr, {}, [''r'', ''r''], Running)"
  by (simp add: backend_step_def write_all_def sample_job_def
      buildWriter_def buildFileWriter_def rotation_def setDefaults_def Let_def
      getFileInfo_def os_Create_def os_OpenFile_def open_handles_def SetHandler_def
      SetLogDir_def NewLogger_def Stdout_def Stderr_def File_def RotateNone_def RotateSize_def
      DefaultLogDir_def sample_env_def empty_world_def default_world_def)

subsection \<open>An unknown rotation strategy\<close>

text \<open>
  Claim C9, as amended. \<^verbatim>\<open>SetRotateType\<close> stores a strategy above \<open>RotateSize\<close>
  unchanged. The destination set builder replaces it by the hourly strategy, and names
  the file by the hour, when it runs with the file bit set; when it runs without the
  file bit the stored value stays. Both calls return without an error.
\<close>

theorem invalid_rotate_type_defaults:
  assumes "RotateSize < r"
  shows "SetRotateType l r = l\<lparr>rotateType := r\<rparr>
    \<and> rotateType (SetRotateType l r) = r
    \<and> (handler l AND File = File \<longrightarrow>
         (\<exists>w' l'. buildWriter e w (SetRotateType l r) args = Some (Inr (w', l'))
            \<and> rotateType l' = RotateHour
            \<and> logFile l' = format_hour (case args of TimeArg t \<Rightarrow> t | SizeArg n \<Rightarrow> zero_time)))
    \<and> (handler l AND File \<noteq> File \<longrightarrow>
         (\<exists>l'. buildWriter e w (SetRotateType l r) args = Some (Inr (w, l')) \<and> rotateType l' = r))"
proof (intro conjI impI)
  show "SetRotateType l r = l\<lparr>rotateType := r\<rparr>" by (simp add: SetRotateType_def)
  show "rotateType (SetRotateType l r) = r" by (simp add: SetRotateType_def)
next
  assume f: "handler l AND File = File"
  let ?l = "SetRotateType l r"
  let ?m = "(writers ?l)
           (Stdout := if handler ?l AND Stdout = Stdout then Some OsStdout else None,
            Stderr := if handler ?l AND Stderr = Stderr then Some OsStderr else None)"
  let ?l2 = "?l\<lparr>writers := ?m\<rparr>"
  let ?name = "format_hour (case args of TimeArg t \<Rightarrow> t | SizeArg n \<Rightarrow> zero_time)"
  have hf: "handler ?l AND File = File" "handler ?l2 AND File = File"
    using f by (simp_all add: SetRotateType_def)
  have rt: "rotateType (setDefaults ?l2) = RotateHour"
    using assms by (simp add: setDefaults_rotateType_eq SetRotateType_def DefaultRotateType_def)
  then have "rotation e w (setDefaults ?l2) args
      = Some (Inr (?name, files w (pjoin e (logDir (setDefaults ?l2)) ?name) = None))"
    by (simp add: rotation_calendar RotateNone_def RotateDay_def RotateHour_def RotateSize_def)
  from buildFileWriter_decided [OF hf(2) this] obtain w' wr where
    "buildFileWriter e w ?l2 args = Some (Inr (w', (setDefaults ?l2)\<lparr>logFile := ?name\<rparr>, wr))"
    by blast
  then have "buildWriter e w ?l args
      = Some (Inr (w', ((setDefaults ?l2)\<lparr>logFile := ?name\<rparr>)
           \<lparr>writers := (writers ((setDefaults ?l2)\<lparr>logFile := ?name\<rparr>))(File \<mapsto> wr)\<rparr>))"
    by (simp add: buildWriter_File [OF hf(1)])
  with rt show "\<exists>w' l'. buildWriter e w ?l args = Some (Inr (w', l'))
            \<and> rotateType l' = RotateHour \<and> logFile l' = ?name"
    by simp
next
  assume "handler l AND File \<noteq> File"
  then show "\<exists>l'. buildWriter e w (SetRotateType l r) args = Some (Inr (w, l')) \<and> rotateType l' = r"
    by (simp add: buildWriter_def Let_def SetRotateType_def)
qed

lemma format_sample:
  "format_day sample_time = ''2024-03-07.log''"
  "format_hour sample_time = ''2024-03-07_09.log''"
  "format_minute sample_time = ''2024-03-07_09-05.log''"
  by (simp_all add: format_day_def format_hour_def format_minute_def pad4_digits pad2_digits
      sample_time_def digit_def)

text \<open>The amended claim C9 for the strategy value 7.\<close>

theorem invalid_rotate_type_defaults_witness:
  "RotateSize < 7
   \<and> rotateType (SetRotateType (SetHandler NewLogger File) 7) = 7
   \<and> (\<exists>w' l'. buildWriter sample_env empty_world (SetRotateType (SetHandler NewLogger File) 7)
          (TimeArg sample_time) = Some (Inr (w', l'))
        \<and> rotateType l' = RotateHour \<and> logFile l' = ''2024-03-07_09.log'')
   \<and> (\<exists>l'. buildWriter sample_env empty_world (SetRotateType (SetHandler NewLogger Stdout) 7)
          (TimeArg sample_time) = Some (Inr (empty_world, l')) \<and> rotateType l' = 7)"
proof -
  have r: "RotateSize < 7" by (simp add: RotateSize_def)
  show ?thesis
    using invalid_rotate_type_defaults
        [OF r, of "SetHandler NewLogger File" sample_env empty_world "TimeArg sample_time"]
      invalid_rotate_type_defaults
        [OF r, of "SetHandler NewLogger Stdout" sample_env empty_world "TimeArg sample_time"]
    by (simp add: r format_sample SetHandler_def SetRotateType_def File_def Stdout_def)
qed

text \<open>
  Claim C9 as stated fails on a logger that logs to standard output only: the builder
  runs and the strategy value 7 is still stored afterwards.
\<close>

theorem invalid_rotate_type_counterexample:
  "RotateSize < 7
   \<and> map_option (map_sum id (\<lambda>(w', l'). rotateType l'))
        (buildWriter sample_env empty_world (SetRotateType (SetHandler NewLogger Stdout) 7)
           (TimeArg sample_time))
     = Some (Inr 7)
   \<and> (7 :: RotateStrategy) \<noteq> RotateHour"
  by (simp add: buildWriter_def Let_def SetRotateType_def SetHandler_def NewLogger_def
      Stdout_def Stderr_def File_def RotateSize_def RotateHour_def)

subsection \<open>Open file handles\<close>

text \<open>
  Claim C4 fails on the code. The goroutine writes a job with the file bit set, one
  after \<^verbatim>\<open>SetHandler(Stdout)\<close> and one after \<^verbatim>\<open>SetHandler(File)\<close>: the builder drops the
  first handle from its map without closing it and opens the file a second time, so the
  handles 0 and 1 are both open at the end.
\<close>

theorem file_handle_leak:
  "Option.bind
     (backend_step sample_env
        (empty_world, (SetHandler NewLogger File)\<lparr>writerChan := [Some sample_job]\<rparr>, Running))
     (\<lambda>(w1, l1, t1). Option.bind
        (backend_step sample_env (w1, (SetHandler l1 Stdout)\<lparr>writerChan := [Some sample_job]\<rparr>, t1))
        (\<lambda>(w2, l2, t2). map_option
           (\<lambda>(w3, l3, t3). (open_handles w3, writers l3 File, files w3 ''/tmp/default.log'', out w3, t3))
           (backend_step sample_env
              (w2, (SetHandler l2 File)\<lparr>writerChan := [Some sample_job]\<rparr>, t2))))
   = Some ({0, 1}, Some (FileHandle 1), Some 2, [''r''], Running)"
  by (simp add: backend_step_def write_all_def sample_job_def
      buildWriter_def buildFileWriter_def rotation_def setDefaults_def Let_def
      getFileInfo_def os_Create_def os_OpenFile_def open_handles_def SetHandler_def
      NewLogger_def Stdout_def Stderr_def File_def RotateNone_def RotateSize_def
      DefaultLogDir_def sample_env_def empty_world_def insert_commute)

end
